theory Spec2Isabelle
  imports Complex_Main "HOL-Library.Log_Nat" "HOL-Library.Sublist"
begin

section \<open>Python floats\<close>

text \<open>
  Every number of \<^verbatim>\<open>app.py\<close> is a Python float or a pandas \<^verbatim>\<open>float64\<close>, that is an
  IEEE 754 binary64 value. A finite value is modelled by the real number it denotes, so
  \<^verbatim>\<open>-0.0\<close> and \<^verbatim>\<open>0.0\<close> are one value (as they are for \<^verbatim>\<open>==\<close>, \<^verbatim>\<open><=\<close> and
  \<^verbatim>\<open>>=\<close>), and the payload of a NaN is not kept.
\<close>

datatype float64 = Finite real | PosInf | NegInf | NaN

text \<open>\<open>ilog2 q\<close> is \<open>\<lfloor>log\<^sub>2 q\<rfloor>\<close> for \<open>0 < q\<close>, computed on integers.\<close>

definition ilog2 :: "real \<Rightarrow> int" where
  "ilog2 q = (if 1 \<le> q then int (floorlog 2 (nat \<lfloor>q\<rfloor>)) - 1
              else - int (floorlog 2 (nat (\<lceil>1 / q\<rceil> - 1))))"

definition round_half_even :: "real \<Rightarrow> int" where
  "round_half_even x =
     (let f = \<lfloor>x\<rfloor>; d = x - of_int f
      in if d < 1 / 2 then f else if 1 / 2 < d then f + 1 else if even f then f else f + 1)"

text \<open>
  Rounding of a positive real to 53 significant bits, ties to even; the exponent of the
  last bit is never below \<open>-1074\<close> (the subnormal numbers).
\<close>

definition round_pos :: "real \<Rightarrow> real" where
  "round_pos q = (let ex = max (ilog2 q - 52) (- 1074)
                  in of_int (round_half_even (q / 2 powi ex)) * 2 powi ex)"

text \<open>The binary64 value nearest to a real number; a result of \<open>2\<^sup>1\<^sup>0\<^sup>2\<^sup>4\<close> or more overflows.\<close>

definition round64 :: "real \<Rightarrow> float64" where
  "round64 q =
     (if q = 0 then Finite 0
      else if 0 < q then (let r = round_pos q in if 2 ^ 1024 \<le> r then PosInf else Finite r)
      else (let r = round_pos (- q) in if 2 ^ 1024 \<le> r then NegInf else Finite (- r)))"

text \<open>A decimal literal of the source (\<^verbatim>\<open>2.92\<close>), or an int stored in a float column.\<close>

definition lit :: "real \<Rightarrow> float64" where
  "lit q = round64 q"

text \<open>\<^verbatim>\<open>x * y\<close> on floats: the exact product, rounded; the IEEE rules for infinities and NaN.\<close>

fun fmul :: "float64 \<Rightarrow> float64 \<Rightarrow> float64" where
  "fmul NaN y = NaN"
| "fmul x NaN = NaN"
| "fmul (Finite x) (Finite y) = round64 (x * y)"
| "fmul (Finite x) PosInf = (if x = 0 then NaN else if 0 < x then PosInf else NegInf)"
| "fmul (Finite x) NegInf = (if x = 0 then NaN else if 0 < x then NegInf else PosInf)"
| "fmul PosInf (Finite y) = (if y = 0 then NaN else if 0 < y then PosInf else NegInf)"
| "fmul NegInf (Finite y) = (if y = 0 then NaN else if 0 < y then NegInf else PosInf)"
| "fmul PosInf PosInf = PosInf"
| "fmul PosInf NegInf = NegInf"
| "fmul NegInf PosInf = NegInf"
| "fmul NegInf NegInf = PosInf"

text \<open>\<^verbatim>\<open>x <= y\<close> and \<^verbatim>\<open>x < y\<close> on floats: every comparison with a NaN is false.\<close>

fun fle :: "float64 \<Rightarrow> float64 \<Rightarrow> bool" where
  "fle NaN y = False"
| "fle x NaN = False"
| "fle NegInf y = True"
| "fle x PosInf = True"
| "fle (Finite x) (Finite y) = (x \<le> y)"
| "fle (Finite x) NegInf = False"
| "fle PosInf (Finite y) = False"
| "fle PosInf NegInf = False"

fun flt :: "float64 \<Rightarrow> float64 \<Rightarrow> bool" where
  "flt NaN y = False"
| "flt x NaN = False"
| "flt (Finite x) (Finite y) = (x < y)"
| "flt NegInf NegInf = False"
| "flt NegInf y = True"
| "flt PosInf y = False"
| "flt (Finite x) PosInf = True"
| "flt (Finite x) NegInf = False"

text \<open>\<^verbatim>\<open>x >= y\<close>.\<close>

definition fge :: "float64 \<Rightarrow> float64 \<Rightarrow> bool" where
  "fge x y = fle y x"

fun is_finite :: "float64 \<Rightarrow> bool" where
  "is_finite (Finite x) = True"
| "is_finite PosInf = False"
| "is_finite NegInf = False"
| "is_finite NaN = False"

section \<open>The dataset\<close>

text \<open>
  One row of the table. The columns \<^verbatim>\<open>'a'\<close>, \<^verbatim>\<open>'e'\<close> and \<^verbatim>\<open>'i'\<close> of the source are the
  fields \<open>a_au\<close>, \<open>e_ecc\<close> and \<open>i_deg\<close>; the other fields carry the names of their columns.
\<close>

record asteroid =
  name :: string
  a_au :: float64
  e_ecc :: float64
  i_deg :: float64
  diameter_km :: float64
  est_value_billion_usd :: float64
  spectral_type :: string
  delta_v_km_s :: float64

text \<open>The dict of columns that \<^verbatim>\<open>load_asteroids\<close> builds.\<close>

record columns =
  c_name :: "string list"
  c_a :: "float64 list"
  c_e :: "float64 list"
  c_i :: "float64 list"
  c_diameter_km :: "float64 list"
  c_est_value_billion_usd :: "float64 list"
  c_spectral_type :: "string list"
  c_delta_v_km_s :: "float64 list"

datatype error = ValueError | IndexError

definition data :: columns where
  "data = \<lparr>
     c_name = [''16 Psyche'', ''Ryugu'', ''Bennu'', ''1 Ceres'', ''4 Vesta'', ''433 Eros''],
     c_a = [lit 2.92, lit 1.19, lit 1.13, lit 2.77, lit 2.36, lit 1.46],
     c_e = [lit 0.14, lit 0.19, lit 0.20, lit 0.08, lit 0.10, lit 0.22],
     c_i = [lit 7.0, lit 5.9, lit 6.0, lit 10.6, lit 7.1, lit 10.8],
     c_diameter_km = [lit 226, lit 0.9, lit 0.49, lit 946, lit 525, lit 16.8],
     c_est_value_billion_usd = [lit 10000, lit 8.8, lit 0.67, lit 1000, lit 500, lit 0.1],
     c_spectral_type = [''M'', ''C'', ''B'', ''C'', ''V'', ''S''],
     c_delta_v_km_s = [lit 5.5, lit 4.6, lit 5.1, lit 9.0, lit 7.8, lit 5.8] \<rparr>"

definition mk_row ::
  "string \<times> float64 \<times> float64 \<times> float64 \<times> float64 \<times> float64 \<times> string \<times> float64 \<Rightarrow> asteroid" where
  "mk_row t = (case t of (n, a, e, i, d, v, s, dv) \<Rightarrow>
     \<lparr> name = n, a_au = a, e_ecc = e, i_deg = i, diameter_km = d,
       est_value_billion_usd = v, spectral_type = s, delta_v_km_s = dv \<rparr>)"

text \<open>
  \<^verbatim>\<open>pd.DataFrame(data)\<close>: the rows of a dict of columns, in order. pandas raises
  \<^verbatim>\<open>ValueError\<close> when the columns differ in length.
\<close>

definition DataFrame :: "columns \<Rightarrow> error + asteroid list" where
  "DataFrame d =
     (let n = length (c_name d)
      in if length (c_a d) = n \<and> length (c_e d) = n \<and> length (c_i d) = n
            \<and> length (c_diameter_km d) = n \<and> length (c_est_value_billion_usd d) = n
            \<and> length (c_spectral_type d) = n \<and> length (c_delta_v_km_s d) = n
         then Inr (map mk_row
                (zip (c_name d) (zip (c_a d) (zip (c_e d) (zip (c_i d) (zip (c_diameter_km d)
                  (zip (c_est_value_billion_usd d) (zip (c_spectral_type d) (c_delta_v_km_s d)))))))))
         else Inl ValueError)"

text \<open>
  \<^verbatim>\<open>load_asteroids\<close> takes no argument and reads nothing: the cache of
  \<^verbatim>\<open>@st.cache_data\<close> returns what the call itself would return.
\<close>

definition load_asteroids :: "error + asteroid list" where
  "load_asteroids = DataFrame data"

text \<open>
  The module-level \<^verbatim>\<open>df = load_asteroids()\<close>. Lemma \<open>load_asteroids_df\<close> below shows
  that the call does not raise, so the second branch is never taken.
\<close>

definition df :: "asteroid list" where
  "df = (case load_asteroids of Inr rows \<Rightarrow> rows | Inl err \<Rightarrow> [])"

section \<open>The pandas operations of the filter\<close>

text \<open>\<^verbatim>\<open>Series.unique()\<close>: the distinct values in order of first appearance.\<close>

fun unique :: "'a list \<Rightarrow> 'a list" where
  "unique [] = []"
| "unique (x # xs) = x # unique (filter (\<lambda>y. y \<noteq> x) xs)"

text \<open>\<^verbatim>\<open>Series.isin(values)\<close>, \<^verbatim>\<open>Series >= v\<close>, \<^verbatim>\<open>Series <= v\<close>, \<^verbatim>\<open>Series == v\<close>: boolean masks.\<close>

definition isin :: "'a list \<Rightarrow> 'a list \<Rightarrow> bool list" where
  "isin col vals = map (\<lambda>x. x \<in> set vals) col"

definition ge_col :: "float64 list \<Rightarrow> float64 \<Rightarrow> bool list" where
  "ge_col col v = map (\<lambda>x. fge x v) col"

definition le_col :: "float64 list \<Rightarrow> float64 \<Rightarrow> bool list" where
  "le_col col v = map (\<lambda>x. fle x v) col"

definition eq_col :: "'a list \<Rightarrow> 'a \<Rightarrow> bool list" where
  "eq_col col v = map (\<lambda>x. x = v) col"

text \<open>\<^verbatim>\<open>m1 & m2\<close> on two masks over the same index.\<close>

definition mask_and :: "bool list \<Rightarrow> bool list \<Rightarrow> bool list" where
  "mask_and m1 m2 = map (\<lambda>(p, q). p \<and> q) (zip m1 m2)"

text \<open>\<^verbatim>\<open>frame[mask]\<close>: the rows whose mask entry is true, in the order of the frame.\<close>

definition bool_index :: "'a list \<Rightarrow> bool list \<Rightarrow> 'a list" where
  "bool_index rows msk = map fst (filter snd (zip rows msk))"

section \<open>The controls and the filter\<close>

text \<open>
  What the widgets return in one run of the script: the multiselect, the three sliders and
  the choice made in the select box (\<open>None\<close> while the user has not chosen).
\<close>

record controls =
  selected_types :: "string list"
  min_diam :: float64
  min_value :: float64
  max_dv :: float64
  orbit_choice :: "string option"

text \<open>The arguments of a \<^verbatim>\<open>st.slider\<close> call: label, lower bound, upper bound, default.\<close>

record slider =
  s_label :: string
  s_min :: float64
  s_max :: float64
  s_value :: float64

definition min_diam_slider :: slider where
  "min_diam_slider =
     \<lparr> s_label = ''Min Diameter (km)'', s_min = lit 0.1, s_max = lit 1000.0, s_value = lit 0.5 \<rparr>"

definition min_value_slider :: slider where
  "min_value_slider =
     \<lparr> s_label = ''Min Est. Value (billion USD)'', s_min = lit 0.1, s_max = lit 20000.0,
       s_value = lit 1.0 \<rparr>"

definition max_dv_slider :: slider where
  "max_dv_slider =
     \<lparr> s_label = ''Max Delta-V to reach (km/s)'', s_min = lit 4.0, s_max = lit 15.0,
       s_value = lit 7.0 \<rparr>"

text \<open>The state of the widgets when the page is first opened over the frame \<open>rows\<close>.\<close>

definition default_controls :: "asteroid list \<Rightarrow> controls" where
  "default_controls rows =
     \<lparr> selected_types = unique (map spectral_type rows),
       min_diam = s_value min_diam_slider,
       min_value = s_value min_value_slider,
       max_dv = s_value max_dv_slider,
       orbit_choice = None \<rparr>"

text \<open>Lines 53 to 58: the four masks, joined by \<^verbatim>\<open>&\<close>, index the frame.\<close>

definition df_filt :: "asteroid list \<Rightarrow> controls \<Rightarrow> asteroid list" where
  "df_filt rows c =
     bool_index rows
       (mask_and
         (mask_and
           (mask_and (isin (map spectral_type rows) (selected_types c))
                     (ge_col (map diameter_km rows) (min_diam c)))
           (ge_col (map est_value_billion_usd rows) (min_value c)))
         (le_col (map delta_v_km_s rows) (max_dv c)))"

text \<open>
  The condition of section 4.2 of the specification, in its words: the spectral type is
  accepted, the diameter and the value reach their minimum, the delta-v stays within its
  maximum.
\<close>

definition spec_included :: "controls \<Rightarrow> asteroid \<Rightarrow> bool" where
  "spec_included c r \<longleftrightarrow>
     spectral_type r \<in> set (selected_types c)
     \<and> fge (diameter_km r) (min_diam c)
     \<and> fge (est_value_billion_usd r) (min_value c)
     \<and> fle (delta_v_km_s r) (max_dv c)"

section \<open>The page\<close>

datatype body = Sun

text \<open>\<^verbatim>\<open>x * u.AU\<close>: a length in astronomical units.\<close>

datatype quantity = AU float64

text \<open>
  \<^verbatim>\<open>Orbit.circular(attractor, alt)\<close> of poliastro. The library is not part of the
  repository: an orbit is modelled by the call that constructs it.
\<close>

datatype orbit = Orbit_circular body quantity

text \<open>
  A figure: the scatter chart of \<^verbatim>\<open>px.scatter\<close> with its title and one point
  (x, y, size, color, hover name) for each row, or the figure of an \<^verbatim>\<open>OrbitPlotter2D\<close>
  with the orbits plotted on it and their labels. The two axis labels of the scatter chart
  are constant texts and are left out.
\<close>

datatype figure =
  Scatter string "(float64 \<times> float64 \<times> float64 \<times> string \<times> string) list"
| OrbitPlotter2D "(orbit \<times> string) list"

text \<open>
  What one run of the script puts on the page, in order. A metric carries the row's name,
  the base value and the two ends of the band; the script shows the three numbers in the
  format \<^verbatim>\<open>,.0f\<close>, which is not modelled.
\<close>

datatype widget =
  Title string
| Caption string
| Header string
| Multiselect string "string list" "string list"
| Slider slider
| Subheader string
| Dataframe "(string \<times> float64 \<times> float64 \<times> float64 \<times> string) list"
| Metric string float64 float64 float64
| PlotlyChart figure
| Selectbox string "string list"
| Info string

text \<open>\<^verbatim>\<open>str(n)\<close> for a length, as the f-string of the heading prints it.\<close>

fun str_nat :: "nat \<Rightarrow> string" where
  "str_nat n = (if n < 10 then [char_of (48 + n)]
                else str_nat (n div 10) @ [char_of (48 + n mod 10)])"

text \<open>The character U+2022 of the caption, in UTF-8.\<close>

definition bullet :: string where
  "bullet = [CHR 0xE2, CHR 0x80, CHR 0xA2]"

text \<open>
  Lines 72 to 80, the body of the loop over the filtered rows: the band of a row and its
  metric.
\<close>

definition profit_metric :: "asteroid \<Rightarrow> widget" where
  "profit_metric row =
     (let base_value = est_value_billion_usd row;
          low = fmul base_value (lit 0.6);
          high = fmul base_value (lit 1.4)
      in Metric (name row) base_value low high)"

text \<open>
  \<^verbatim>\<open>st.selectbox(label, options, index=0)\<close>: one of the options, the first one until the
  user chooses another (and again when the chosen one is no longer offered); Python's
  \<^verbatim>\<open>None\<close> when there is no option.
\<close>

definition selectbox :: "string list \<Rightarrow> string option \<Rightarrow> string option" where
  "selectbox options choice =
     (case options of
        [] \<Rightarrow> None
      | first # rest \<Rightarrow>
          (case choice of
             None \<Rightarrow> Some first
           | Some s \<Rightarrow> if s \<in> set options then Some s else Some first))"

text \<open>\<^verbatim>\<open>frame.iloc[0]\<close>: the first row; \<^verbatim>\<open>IndexError\<close> on an empty frame.\<close>

definition iloc0 :: "'a list \<Rightarrow> error + 'a" where
  "iloc0 rows = (case rows of [] \<Rightarrow> Inl IndexError | r # rest \<Rightarrow> Inr r)"

text \<open>
  Lines 85 to 108. The row of the selected name is looked up and not used; the orbit is
  the one of line 103.
\<close>

definition orbit_section :: "asteroid list \<Rightarrow> string option \<Rightarrow> error + widget list" where
  "orbit_section filt choice =
     (if filt \<noteq> [] then
        (let fig = Scatter ''Semi-major Axis vs Inclination (size = diameter)''
                     (map (\<lambda>r. (a_au r, i_deg r, diameter_km r, spectral_type r, name r)) filt)
         in case selectbox (map name filt) choice of
              None \<Rightarrow> Inl IndexError
            | Some selected \<Rightarrow>
                (case iloc0 (bool_index filt (eq_col (map name filt) selected)) of
                   Inl err \<Rightarrow> Inl err
                 | Inr row \<Rightarrow>
                     (let orb = Orbit_circular Sun (AU (lit 1))
                      in Inr [PlotlyChart fig,
                              Selectbox ''Plot orbit for:'' (map name filt),
                              PlotlyChart (OrbitPlotter2D [(orb, selected)])])))
      else Inr [Info ''No asteroids match your filters.''])"

text \<open>The whole script over a loaded frame, from the title to the last chart.\<close>

definition page :: "asteroid list \<Rightarrow> controls \<Rightarrow> error + widget list" where
  "page rows c =
     (let filt = df_filt rows c;
          top = [Title ''Asteroid Mining Mission Planner (MVP)'',
                 Caption (''Filter main-belt / NEO asteroids '' @ bullet
                          @ '' Rough value estimates '' @ bullet @ '' Basic orbit view''),
                 Header ''Filters'',
                 Multiselect ''Spectral Type'' (unique (map spectral_type rows))
                   (unique (map spectral_type rows)),
                 Slider min_diam_slider, Slider min_value_slider, Slider max_dv_slider,
                 Subheader (''Filtered Asteroids ('' @ str_nat (length filt) @ '' found)''),
                 Dataframe (map (\<lambda>r. (name r, diameter_km r, est_value_billion_usd r,
                                       delta_v_km_s r, spectral_type r)) filt),
                 Subheader ''Profit Estimates (rough)'']
                @ map profit_metric filt
                @ [Subheader ''Orbital Positions (selected asteroids)'']
      in case orbit_section filt (orbit_choice c) of
           Inl err \<Rightarrow> Inl err
         | Inr ws \<Rightarrow> Inr (top @ ws))"

text \<open>The figures that a page shows, and the orbits drawn on them.\<close>

fun plots :: "widget list \<Rightarrow> figure list" where
  "plots [] = []"
| "plots (PlotlyChart fig # ws) = fig # plots ws"
| "plots (w # ws) = plots ws"

fun orbits :: "figure list \<Rightarrow> (orbit \<times> string) list" where
  "orbits [] = []"
| "orbits (OrbitPlotter2D os # figs) = os @ orbits figs"
| "orbits (fig # figs) = orbits figs"

section \<open>Facts about the model of floats\<close>

lemma fle_trans: "fle x y \<Longrightarrow> fle y z \<Longrightarrow> fle x z"
  by (cases x; cases y; cases z) simp_all

lemma fmul_commute: "fmul x y = fmul y x"
  by (cases x; cases y) (simp_all add: mult.commute)

text \<open>
  The rounding is the one of IEEE 754: \<open>ilog2\<close> is the binary exponent, the rounded value
  differs from the real by at most half a unit of the last bit, and in the range of the
  normal numbers it is a significand of 53 bits at that exponent.
\<close>

lemma ilog2_ge1:
  assumes "1 \<le> q"
  shows "2 powi (ilog2 q) \<le> q \<and> q < 2 powi (ilog2 q + 1)"
proof -
  define n where "n = nat \<lfloor>q\<rfloor>"
  have n1: "0 < n"
    using assms by (simp add: n_def)
  define k where "k = floorlog 2 n - 1"
  have "floorlog 2 n \<noteq> 0"
    using n1 by (simp add: floorlog_eq_zero_iff)
  then have fl: "floorlog 2 n = Suc k"
    by (simp add: k_def)
  from floorlog_bounds [of n 2] n1 have b: "2 ^ k \<le> n" "n < 2 ^ Suc k"
    by (simp_all add: fl)
  have il: "ilog2 q = int k"
    using assms by (simp add: ilog2_def n_def [symmetric] fl)
  have nq: "real n \<le> q" "q < real n + 1"
    using assms by (simp_all add: n_def)
  have "(2::real) ^ k \<le> real n"
    using b(1) by (metis of_nat_le_iff of_nat_numeral of_nat_power)
  moreover have "real n + 1 \<le> 2 ^ Suc k"
  proof -
    from b(2) have "n + 1 \<le> 2 ^ Suc k" by simp
    then have "real (n + 1) \<le> real (2 ^ Suc k)" by (rule of_nat_mono)
    then show ?thesis by (simp only: of_nat_add of_nat_1 of_nat_power of_nat_numeral)
  qed
  moreover have "(2::real) powi (int k) = 2 ^ k"
    by simp
  moreover have "(2::real) powi (int k + 1) = 2 ^ Suc k"
    by (simp add: power_int_add)
  ultimately show ?thesis
    unfolding il using nq by linarith
qed

lemma ilog2_lt1:
  assumes "0 < q" "q < 1"
  shows "2 powi (ilog2 q) \<le> q \<and> q < 2 powi (ilog2 q + 1)"
proof -
  define r where "r = 1 / q"
  have r1: "1 < r"
    using assms by (simp add: r_def)
  define m where "m = nat (\<lceil>r\<rceil> - 1)"
  have c2: "2 \<le> \<lceil>r\<rceil>"
    using r1 by linarith
  have m1: "0 < m"
    using c2 by (simp add: m_def)
  have mr: "real m < r" "r \<le> real m + 1"
    using c2 by (simp_all add: m_def) linarith+
  define j where "j = floorlog 2 m - 1"
  have "floorlog 2 m \<noteq> 0"
    using m1 by (simp add: floorlog_eq_zero_iff)
  then have fl: "floorlog 2 m = Suc j"
    by (simp add: j_def)
  from floorlog_bounds [of m 2] m1 have b: "2 ^ j \<le> m" "m < 2 ^ Suc j"
    by (simp_all add: fl)
  have il: "ilog2 q = - int (Suc j)"
    using assms by (simp add: ilog2_def r_def [symmetric] m_def [symmetric] fl)
  have lo: "(2::real) ^ j < r"
  proof -
    have "(2::real) ^ j \<le> real m"
      using b(1) by (metis of_nat_le_iff of_nat_numeral of_nat_power)
    with mr show ?thesis by linarith
  qed
  have hi: "r \<le> 2 ^ Suc j"
  proof -
    from b(2) have "m + 1 \<le> 2 ^ Suc j" by simp
    then have "real (m + 1) \<le> real (2 ^ Suc j)" by (rule of_nat_mono)
    then have "real m + 1 \<le> 2 ^ Suc j"
      by (simp only: of_nat_add of_nat_1 of_nat_power of_nat_numeral)
    with mr show ?thesis by linarith
  qed
  have q: "q = 1 / r"
    using assms by (simp add: r_def)
  have "1 / 2 ^ Suc j \<le> q"
    unfolding q using hi r1 by (simp add: field_simps)
  moreover have "q < 1 / 2 ^ j"
    unfolding q using lo r1 by (simp add: field_simps)
  moreover have "(2::real) powi (- int (Suc j)) = 1 / 2 ^ Suc j"
    by (simp only: power_int_minus power_int_of_nat inverse_eq_divide)
  moreover have "(2::real) powi (- int (Suc j) + 1) = 1 / 2 ^ j"
  proof -
    have "- int (Suc j) + 1 = - int j"
      by simp
    then show ?thesis
      by (simp only: power_int_minus power_int_of_nat inverse_eq_divide)
  qed
  ultimately show ?thesis
    by (simp only: il)
qed

lemma ilog2_bounds: "0 < q \<Longrightarrow> 2 powi (ilog2 q) \<le> q \<and> q < 2 powi (ilog2 q + 1)"
  using ilog2_ge1 [of q] ilog2_lt1 [of q] by (cases "1 \<le> q") simp_all

lemma round_half_even_error: "\<bar>of_int (round_half_even x) - x\<bar> \<le> 1 / 2"
proof -
  have "of_int \<lfloor>x\<rfloor> \<le> x" "x < of_int \<lfloor>x\<rfloor> + 1"
    by linarith+
  then show ?thesis
    by (auto simp: round_half_even_def Let_def)
qed

lemma round_half_even_le: "x \<le> of_int n \<Longrightarrow> round_half_even x \<le> n"
proof -
  assume a: "x \<le> of_int n"
  have f: "of_int \<lfloor>x\<rfloor> \<le> x" "x < of_int \<lfloor>x\<rfloor> + 1"
    by linarith+
  have "\<lfloor>x\<rfloor> \<le> n"
    using a by (simp add: floor_le_iff)
  moreover have "x - of_int \<lfloor>x\<rfloor> \<ge> 1 / 2 \<Longrightarrow> \<lfloor>x\<rfloor> + 1 \<le> n"
    using a f by linarith
  ultimately show ?thesis
    by (auto simp: round_half_even_def Let_def)
qed

lemma round_half_even_ge: "of_int n \<le> x \<Longrightarrow> n \<le> round_half_even x"
proof -
  assume a: "of_int n \<le> x"
  have "n \<le> \<lfloor>x\<rfloor>"
    using a by (simp add: le_floor_iff)
  then show ?thesis
    by (auto simp: round_half_even_def Let_def)
qed

lemma round_pos_error:
  "\<bar>round_pos q - q\<bar> \<le> 2 powi (max (ilog2 q - 52) (- 1074)) / 2"
proof -
  define ex where "ex = max (ilog2 q - 52) (- 1074)"
  define u :: real where "u = 2 powi ex"
  have u: "0 < u"
    by (simp add: u_def)
  have "round_pos q - q = (of_int (round_half_even (q / u)) - q / u) * u"
    using u by (simp add: round_pos_def Let_def ex_def [symmetric] u_def [symmetric] field_simps)
  then have "\<bar>round_pos q - q\<bar> = \<bar>of_int (round_half_even (q / u)) - q / u\<bar> * u"
    using u by (simp add: abs_mult)
  also have "\<dots> \<le> 1 / 2 * u"
    using u round_half_even_error [of "q / u"] by (intro mult_right_mono) simp_all
  finally show ?thesis
    by (simp add: u_def ex_def)
qed

lemma round_pos_normal:
  assumes "0 < q" "- 1022 \<le> ilog2 q"
  shows "\<exists>m. round_pos q = of_int m * 2 powi (ilog2 q - 52) \<and> 2 ^ 52 \<le> m \<and> m \<le> 2 ^ 53"
proof -
  define u :: real where "u = 2 powi (ilog2 q - 52)"
  have u: "0 < u"
    by (simp add: u_def)
  have ex: "max (ilog2 q - 52) (- 1074) = ilog2 q - 52"
    using assms(2) by simp
  from ilog2_bounds [OF assms(1)]
  have b: "2 powi (ilog2 q) \<le> q" "q < 2 powi (ilog2 q + 1)"
    by simp_all
  have p1: "(2::real) powi (ilog2 q) = 2 ^ 52 * u"
    by (simp add: u_def power_int_diff)
  have p2: "(2::real) powi (ilog2 q + 1) = 2 ^ 53 * u"
    by (simp add: u_def power_int_diff power_int_add)
  have lo: "of_int (2 ^ 52) \<le> q / u"
    using b(1) u unfolding p1 by (simp add: field_simps)
  have hi: "q / u \<le> of_int (2 ^ 53)"
    using b(2) u unfolding p2 by (simp add: field_simps)
  have "round_pos q = of_int (round_half_even (q / u)) * u"
    by (simp add: round_pos_def Let_def ex u_def)
  moreover have "2 ^ 52 \<le> round_half_even (q / u)"
    using lo by (rule round_half_even_ge)
  moreover have "round_half_even (q / u) \<le> 2 ^ 53"
    using hi by (rule round_half_even_le)
  ultimately show ?thesis
    unfolding u_def by blast
qed

text \<open>The equations that evaluate \<open>round64\<close> on a numeral.\<close>

lemmas round64_eval =
  lit_def round64_def round_pos_def round_half_even_def ilog2_def compute_floorlog Let_def

text \<open>The binary64 values of the literals of the sliders, the band and the orbit.\<close>

lemma lit_values:
  "lit 0.5 = Finite (1 / 2)" "lit 1.0 = Finite 1" "lit 7.0 = Finite 7"
  "lit 0.1 = Finite (3602879701896397 / 36028797018963968)"
  "lit 1000.0 = Finite 1000" "lit 20000.0 = Finite 20000" "lit 4.0 = Finite 4"
  "lit 15.0 = Finite 15" "lit 0 = Finite 0"
  "lit 0.6 = Finite (5404319552844595 / 9007199254740992)"
  "lit 1.4 = Finite (3152519739159347 / 2251799813685248)"
  by (simp_all add: round64_eval)

lemma lit_one: "lit 1 = Finite 1"
  by (simp add: round64_eval)

section \<open>The loaded table\<close>

lemma load_asteroids_df: "load_asteroids = Inr df"
  by (simp add: df_def load_asteroids_def DataFrame_def data_def)

text \<open>The six rows, each literal rounded to its binary64 value.\<close>

lemma df_rows:
  "df =
   [
     \<lparr> name = ''16 Psyche'',
       a_au = Finite (1643813863990231 / 562949953421312),
       e_ecc = Finite (1261007895663739 / 9007199254740992),
       i_deg = Finite 7,
       diameter_km = Finite 226,
       est_value_billion_usd = Finite 10000,
       spectral_type = ''M'',
       delta_v_km_s = Finite (11 / 2) \<rparr>,
     \<lparr> name = ''Ryugu'',
       a_au = Finite (2679641778285445 / 2251799813685248),
       e_ecc = Finite (3422735716801577 / 18014398509481984),
       i_deg = Finite (3321404725185741 / 562949953421312),
       diameter_km = Finite (8106479329266893 / 9007199254740992),
       est_value_billion_usd = Finite (2476979795053773 / 281474976710656),
       spectral_type = ''C'',
       delta_v_km_s = Finite (2589569785738035 / 562949953421312) \<rparr>,
     \<lparr> name = ''Bennu'',
       a_au = Finite (1272266894732165 / 1125899906842624),
       e_ecc = Finite (3602879701896397 / 18014398509481984),
       i_deg = Finite 6,
       diameter_km = Finite (2206763817411543 / 4503599627370496),
       est_value_billion_usd = Finite (6034823500676465 / 9007199254740992),
       spectral_type = ''B'',
       delta_v_km_s = Finite (2871044762448691 / 562949953421312) \<rparr>,
     \<lparr> name = ''1 Ceres'',
       a_au = Finite (6237485483908137 / 2251799813685248),
       e_ecc = Finite (5764607523034235 / 72057594037927936),
       i_deg = Finite (5967269506265907 / 562949953421312),
       diameter_km = Finite 946,
       est_value_billion_usd = Finite 1000,
       spectral_type = ''C'',
       delta_v_km_s = Finite 9 \<rparr>,
     \<lparr> name = ''4 Vesta'',
       a_au = Finite (5314247560297185 / 2251799813685248),
       e_ecc = Finite (3602879701896397 / 36028797018963968),
       i_deg = Finite (3996944669291315 / 562949953421312),
       diameter_km = Finite 525,
       est_value_billion_usd = Finite 500,
       spectral_type = ''V'',
       delta_v_km_s = Finite (8782019273372467 / 1125899906842624) \<rparr>,
     \<lparr> name = ''433 Eros'',
       a_au = Finite (1643813863990231 / 1125899906842624),
       e_ecc = Finite (7926335344172073 / 36028797018963968),
       i_deg = Finite (3039929748475085 / 281474976710656),
       diameter_km = Finite (4728779608739021 / 281474976710656),
       est_value_billion_usd = Finite (3602879701896397 / 36028797018963968),
       spectral_type = ''S'',
       delta_v_km_s = Finite (6530219459687219 / 1125899906842624) \<rparr> ]"
  by (simp add: df_def load_asteroids_def DataFrame_def data_def mk_row_def round64_eval)

text \<open>The controls of a freshly opened page over the loaded table.\<close>

lemma default_controls_df:
  "default_controls df =
     \<lparr> selected_types = [''M'', ''C'', ''B'', ''V'', ''S''],
       min_diam = Finite (1 / 2), min_value = Finite 1, max_dv = Finite 7,
       orbit_choice = None \<rparr>"
  unfolding default_controls_def min_diam_slider_def min_value_slider_def max_dv_slider_def
    lit_values
  by (simp add: df_rows)

section \<open>The filter, row by row\<close>

lemma bool_index_map: "bool_index rows (map P rows) = filter P rows"
  by (induction rows) (simp_all add: bool_index_def)

lemma mask_and_map: "mask_and (map P xs) (map Q xs) = map (\<lambda>x. P x \<and> Q x) xs"
  by (induction xs) (simp_all add: mask_and_def)

text \<open>The joined mask holds at a row exactly when the four comparisons hold for the row.\<close>

lemma df_filt_filter:
  "df_filt rows c =
     filter (\<lambda>r. ((spectral_type r \<in> set (selected_types c)
                    \<and> fge (diameter_km r) (min_diam c))
                   \<and> fge (est_value_billion_usd r) (min_value c))
                  \<and> fle (delta_v_km_s r) (max_dv c)) rows"
  by (simp add: df_filt_def isin_def ge_col_def le_col_def o_def mask_and_map bool_index_map)

lemma length_filter_mono:
  "(\<And>x. P x \<Longrightarrow> Q x) \<Longrightarrow> length (filter P xs) \<le> length (filter Q xs)"
  by (induction xs) auto

text \<open>The rows kept under the criteria of scenario 1 of the specification.\<close>

lemma scenario1_names:
  "map name (df_filt df \<lparr> selected_types = [''M'', ''C'', ''B'', ''V'', ''S''],
       min_diam = Finite (1 / 2), min_value = Finite 1, max_dv = Finite 7,
       orbit_choice = ch \<rparr>) = [''16 Psyche'', ''Ryugu'']"
  unfolding df_filt_filter
  by (simp add: df_rows fge_def)

section \<open>The page, part by part\<close>

lemma plots_append: "plots (xs @ ys) = plots xs @ plots ys"
  by (induction xs rule: plots.induct) simp_all

lemma plots_metrics: "plots (map profit_metric rows) = []"
  by (induction rows) (simp_all add: profit_metric_def Let_def)

lemma df_filt_no_types: "selected_types c = [] \<Longrightarrow> df_filt rows c = []"
  by (simp add: df_filt_filter)

text \<open>The select box returns one of its options: the chosen one, or else the first.\<close>

lemma selectbox_Some:
  assumes "selectbox opts choice = Some s"
  shows "s \<in> set opts"
  using assms by (auto simp: selectbox_def split: list.splits option.splits if_splits)

lemma selectbox_choice: "s \<in> set opts \<Longrightarrow> selectbox opts (Some s) = Some s"
  by (cases opts) (simp_all add: selectbox_def)

lemma selectbox_default: "opts \<noteq> [] \<Longrightarrow> selectbox opts None = Some (hd opts)"
  by (cases opts) (simp_all add: selectbox_def)

lemma selectbox_nonempty: "opts \<noteq> [] \<Longrightarrow> \<exists>s. selectbox opts choice = Some s"
  by (cases opts; cases choice) (simp_all add: selectbox_def)

text \<open>The lookup of the selected row finds a row, so \<^verbatim>\<open>iloc[0]\<close> does not raise.\<close>

lemma iloc0_selected:
  assumes "s \<in> set (map name filt)"
  shows "\<exists>row. iloc0 (bool_index filt (eq_col (map name filt) s)) = Inr row"
proof -
  have "bool_index filt (eq_col (map name filt) s) = filter (\<lambda>r. name r = s) filt"
    by (simp add: eq_col_def o_def bool_index_map)
  moreover from assms have "filter (\<lambda>r. name r = s) filt \<noteq> []"
    by (auto simp: filter_empty_conv)
  ultimately show ?thesis
    by (auto simp: iloc0_def split: list.splits)
qed

lemma orbit_section_orbits:
  assumes "selectbox (map name filt) choice = Some s"
  shows "\<exists>ws. orbit_section filt choice = Inr ws
           \<and> orbits (plots ws) = [(Orbit_circular Sun (AU (Finite 1)), s)]"
proof -
  from assms have m: "s \<in> set (map name filt)"
    by (rule selectbox_Some)
  then have ne: "filt \<noteq> []"
    by auto
  from iloc0_selected [OF m] obtain row
    where "iloc0 (bool_index filt (eq_col (map name filt) s)) = Inr row" ..
  with assms ne show ?thesis
    by (simp add: orbit_section_def Let_def lit_one)
qed

lemma page_orbits:
  assumes "selectbox (map name (df_filt rows c)) (orbit_choice c) = Some s"
  shows "\<exists>ws. page rows c = Inr ws
           \<and> orbits (plots ws) = [(Orbit_circular Sun (AU (Finite 1)), s)]"
proof -
  from orbit_section_orbits [OF assms] obtain ws
    where "orbit_section (df_filt rows c) (orbit_choice c) = Inr ws"
      and "orbits (plots ws) = [(Orbit_circular Sun (AU (Finite 1)), s)]"
    by blast
  then show ?thesis
    by (simp add: page_def Let_def plots_append plots_metrics)
qed

text \<open>No step of the page fails, whatever the state of the controls.\<close>

lemma page_total: "\<exists>ws. page rows c = Inr ws"
proof (cases "df_filt rows c = []")
  case True
  then show ?thesis
    by (simp add: page_def orbit_section_def Let_def)
next
  case False
  then have "map name (df_filt rows c) \<noteq> []"
    by simp
  from selectbox_nonempty [OF this] obtain s
    where "selectbox (map name (df_filt rows c)) (orbit_choice c) = Some s" ..
  from page_orbits [OF this] show ?thesis
    by blast
qed


section \<open>The filter engine\<close>

text \<open>
  Claim C1. Whatever the criteria, a row of the frame (so every record of the loaded
  table) is in the filtered frame if and only if its spectral type is one of the accepted
  types and its diameter is at least the minimum diameter and its estimated value is at
  least the minimum value and its delta-v is at most the maximum delta-v: the four
  conditions are joined by "and".
\<close>

theorem filter_includes_iff:
  "r \<in> set rows \<Longrightarrow> r \<in> set (df_filt rows c) \<longleftrightarrow> spec_included c r"
  by (auto simp add: df_filt_filter spec_included_def)

theorem filter_includes_iff_witness:
  "hd df \<in> set df \<and> hd df \<in> set (df_filt df (default_controls df))
     \<and> spec_included (default_controls df) (hd df)"
proof -
  have m: "hd df \<in> set df"
    by (simp add: df_rows)
  have s: "spec_included (default_controls df) (hd df)"
    unfolding default_controls_df by (simp add: df_rows spec_included_def fge_def)
  from filter_includes_iff [OF m, of "default_controls df"] m s show ?thesis
    by simp
qed

text \<open>
  Claim C2, as the specification states it, fails: under the default criteria (types M, C,
  B, V, S, minimum diameter 0.5, minimum value 1.0, maximum delta-v 7.0) the names of the
  filtered rows are not the set of 16 Psyche, Ryugu and 433 Eros, since the value 0.1 of
  433 Eros is below the minimum value 1.0.
\<close>

theorem scenario1_counterexample:
  "set (map name (df_filt df \<lparr> selected_types = [''M'', ''C'', ''B'', ''V'', ''S''],
       min_diam = lit 0.5, min_value = lit 1.0, max_dv = lit 7.0, orbit_choice = None \<rparr>))
   \<noteq> {''16 Psyche'', ''Ryugu'', ''433 Eros''}"
proof -
  have "''433 Eros'' \<notin> set [''16 Psyche'', ''Ryugu'']"
    by simp
  moreover have "''433 Eros'' \<in> {''16 Psyche'', ''Ryugu'', ''433 Eros''}"
    by simp
  ultimately have "set [''16 Psyche'', ''Ryugu''] \<noteq> {''16 Psyche'', ''Ryugu'', ''433 Eros''}"
    by metis
  then show ?thesis
    unfolding lit_values scenario1_names .
qed

text \<open>
  Claim C2, amended. The criteria of scenario 1 are the default state of the controls, and
  under them the filtered rows are exactly 16 Psyche and Ryugu, in this order: Bennu,
  1 Ceres, 4 Vesta and 433 Eros are excluded.
\<close>

theorem scenario1:
  "default_controls df = \<lparr> selected_types = [''M'', ''C'', ''B'', ''V'', ''S''],
       min_diam = lit 0.5, min_value = lit 1.0, max_dv = lit 7.0, orbit_choice = None \<rparr>
   \<and> map name (df_filt df \<lparr> selected_types = [''M'', ''C'', ''B'', ''V'', ''S''],
       min_diam = lit 0.5, min_value = lit 1.0, max_dv = lit 7.0, orbit_choice = None \<rparr>)
       = [''16 Psyche'', ''Ryugu'']
   \<and> list_all (\<lambda>n. n \<notin> set (map name (df_filt df
         \<lparr> selected_types = [''M'', ''C'', ''B'', ''V'', ''S''],
           min_diam = lit 0.5, min_value = lit 1.0, max_dv = lit 7.0, orbit_choice = None \<rparr>)))
       [''Bennu'', ''1 Ceres'', ''4 Vesta'', ''433 Eros'']"
  unfolding lit_values scenario1_names default_controls_df by simp

text \<open>
  Claim C3. For every criteria the filtered frame is a subsequence of the frame: rows are
  dropped, and the rows that stay are unchanged, occur as often as before and keep their
  relative order.
\<close>

theorem filter_subseq: "subseq (df_filt rows c) rows"
  by (simp add: df_filt_filter)

text \<open>
  Claim C6. Filtering is idempotent: filtering a filtered frame again with the same
  criteria returns it unchanged.
\<close>

theorem filter_idempotent: "df_filt (df_filt rows c) c = df_filt rows c"
  by (simp add: df_filt_filter)

text \<open>
  Claim C7. The filter is monotone in its thresholds: with the other criteria fixed, a
  minimum diameter that is raised, a minimum value that is raised or a maximum delta-v that
  is lowered never makes the filtered frame longer.
\<close>

theorem filter_monotone:
  "(fle (min_diam c) d \<longrightarrow>
      length (df_filt rows (c\<lparr>min_diam := d\<rparr>)) \<le> length (df_filt rows c))
   \<and> (fle (min_value c) v \<longrightarrow>
      length (df_filt rows (c\<lparr>min_value := v\<rparr>)) \<le> length (df_filt rows c))
   \<and> (fle x (max_dv c) \<longrightarrow>
      length (df_filt rows (c\<lparr>max_dv := x\<rparr>)) \<le> length (df_filt rows c))"
proof (intro conjI impI)
  assume "fle (min_diam c) d"
  then show "length (df_filt rows (c\<lparr>min_diam := d\<rparr>)) \<le> length (df_filt rows c)"
    unfolding df_filt_filter
    by (intro length_filter_mono) (auto simp: fge_def intro: fle_trans)
next
  assume "fle (min_value c) v"
  then show "length (df_filt rows (c\<lparr>min_value := v\<rparr>)) \<le> length (df_filt rows c)"
    unfolding df_filt_filter
    by (intro length_filter_mono) (auto simp: fge_def intro: fle_trans)
next
  assume "fle x (max_dv c)"
  then show "length (df_filt rows (c\<lparr>max_dv := x\<rparr>)) \<le> length (df_filt rows c)"
    unfolding df_filt_filter
    by (intro length_filter_mono) (auto intro: fle_trans)
qed

theorem filter_monotone_witness:
  "fle (min_diam (default_controls df)) (Finite 300)
   \<and> length (df_filt df ((default_controls df)\<lparr>min_diam := Finite 300\<rparr>))
       \<le> length (df_filt df (default_controls df))
   \<and> fle (min_value (default_controls df)) (Finite 10)
   \<and> length (df_filt df ((default_controls df)\<lparr>min_value := Finite 10\<rparr>))
       \<le> length (df_filt df (default_controls df))
   \<and> fle (Finite 5) (max_dv (default_controls df))
   \<and> length (df_filt df ((default_controls df)\<lparr>max_dv := Finite 5\<rparr>))
       \<le> length (df_filt df (default_controls df))"
proof -
  have h: "fle (min_diam (default_controls df)) (Finite 300)"
    "fle (min_value (default_controls df)) (Finite 10)"
    "fle (Finite 5) (max_dv (default_controls df))"
    unfolding default_controls_df by simp_all
  with filter_monotone [of "default_controls df" "Finite 300" df "Finite 10" "Finite 5"]
  show ?thesis by blast
qed

section \<open>The static dataset\<close>

text \<open>
  Claim C9. \<^verbatim>\<open>load_asteroids\<close> returns without an error, always the same table of
  exactly six records; the names are pairwise distinct; each of the six numeric fields of
  every record is a finite float; and every numeric field other than the eccentricity is
  greater than zero.
\<close>

theorem dataset_invariants:
  "load_asteroids = Inr df
   \<and> length df = 6
   \<and> distinct (map name df)
   \<and> list_all (\<lambda>r. is_finite (a_au r) \<and> is_finite (e_ecc r) \<and> is_finite (i_deg r)
         \<and> is_finite (diameter_km r) \<and> is_finite (est_value_billion_usd r)
         \<and> is_finite (delta_v_km_s r)) df
   \<and> list_all (\<lambda>r. flt (lit 0) (a_au r) \<and> flt (lit 0) (i_deg r)
         \<and> flt (lit 0) (diameter_km r) \<and> flt (lit 0) (est_value_billion_usd r)
         \<and> flt (lit 0) (delta_v_km_s r)) df"
proof (intro conjI)
  show "load_asteroids = Inr df"
    by (rule load_asteroids_df)
  show "length df = 6"
    by (simp add: df_rows)
  show "distinct (map name df)"
    by (simp add: df_rows)
  show "list_all (\<lambda>r. is_finite (a_au r) \<and> is_finite (e_ecc r) \<and> is_finite (i_deg r)
         \<and> is_finite (diameter_km r) \<and> is_finite (est_value_billion_usd r)
         \<and> is_finite (delta_v_km_s r)) df"
    by (simp add: df_rows)
  show "list_all (\<lambda>r. flt (lit 0) (a_au r) \<and> flt (lit 0) (i_deg r)
         \<and> flt (lit 0) (diameter_km r) \<and> flt (lit 0) (est_value_billion_usd r)
         \<and> flt (lit 0) (delta_v_km_s r)) df"
    unfolding lit_values by (simp add: df_rows)
qed

text \<open>
  Claim C10. With the controls at their loosest (every spectral type of the table accepted,
  minimum diameter 0.1, minimum value 0.1 and maximum delta-v 15.0, which are the bounds
  of the sliders) the filter returns all six records, and the diameter, the value and the
  delta-v of every record lie within the range of their slider.
\<close>

theorem loosest_controls_keep_all:
  "s_min min_diam_slider = lit 0.1 \<and> s_min min_value_slider = lit 0.1
   \<and> s_max max_dv_slider = lit 15.0
   \<and> df_filt df \<lparr> selected_types = unique (map spectral_type df), min_diam = lit 0.1,
        min_value = lit 0.1, max_dv = lit 15.0, orbit_choice = ch \<rparr> = df
   \<and> list_all (\<lambda>r. fle (s_min min_diam_slider) (diameter_km r)
         \<and> fle (diameter_km r) (s_max min_diam_slider)) df
   \<and> list_all (\<lambda>r. fle (s_min min_value_slider) (est_value_billion_usd r)
         \<and> fle (est_value_billion_usd r) (s_max min_value_slider)) df
   \<and> list_all (\<lambda>r. fle (s_min max_dv_slider) (delta_v_km_s r)
         \<and> fle (delta_v_km_s r) (s_max max_dv_slider)) df"
proof (intro conjI)
  show "s_min min_diam_slider = lit 0.1" "s_min min_value_slider = lit 0.1"
    "s_max max_dv_slider = lit 15.0"
    by (simp_all add: min_diam_slider_def min_value_slider_def max_dv_slider_def)
  show "df_filt df \<lparr> selected_types = unique (map spectral_type df), min_diam = lit 0.1,
        min_value = lit 0.1, max_dv = lit 15.0, orbit_choice = ch \<rparr> = df"
    unfolding lit_values df_filt_filter by (simp add: df_rows fge_def)
  show "list_all (\<lambda>r. fle (s_min min_diam_slider) (diameter_km r)
         \<and> fle (diameter_km r) (s_max min_diam_slider)) df"
    unfolding min_diam_slider_def lit_values by (simp add: df_rows)
  show "list_all (\<lambda>r. fle (s_min min_value_slider) (est_value_billion_usd r)
         \<and> fle (est_value_billion_usd r) (s_max min_value_slider)) df"
    unfolding min_value_slider_def lit_values by (simp add: df_rows)
  show "list_all (\<lambda>r. fle (s_min max_dv_slider) (delta_v_km_s r)
         \<and> fle (delta_v_km_s r) (s_max max_dv_slider)) df"
    unfolding max_dv_slider_def lit_values by (simp add: df_rows)
qed

section \<open>The profit estimator\<close>

text \<open>
  Claim C4. For every record the band of its metric is the float product of 0.6 and of 1.4
  with the record's estimated value (the script multiplies in the other order, and the
  product of two floats does not depend on the order). For 16 Psyche, of value 10000, the
  band is 6000 to 14000: the two products, rounded to binary64, are these integers.
\<close>

theorem profit_band:
  "profit_metric r =
     Metric (name r) (est_value_billion_usd r)
       (fmul (lit 0.6) (est_value_billion_usd r)) (fmul (lit 1.4) (est_value_billion_usd r))
   \<and> map profit_metric (filter (\<lambda>r. name r = ''16 Psyche'') df)
       = [Metric ''16 Psyche'' (Finite 10000) (Finite 6000) (Finite 14000)]"
proof
  show "profit_metric r =
     Metric (name r) (est_value_billion_usd r)
       (fmul (lit 0.6) (est_value_billion_usd r)) (fmul (lit 1.4) (est_value_billion_usd r))"
    by (simp add: profit_metric_def Let_def fmul_commute)
  have lo: "fmul (Finite 10000) (lit 0.6) = Finite 6000"
    unfolding lit_values by (simp add: round64_eval)
  have hi: "fmul (Finite 10000) (lit 1.4) = Finite 14000"
    unfolding lit_values by (simp add: round64_eval)
  have "filter (\<lambda>r. name r = ''16 Psyche'') df = [hd df]"
    by (simp add: df_rows)
  moreover have "profit_metric (hd df) = Metric ''16 Psyche'' (Finite 10000) (Finite 6000) (Finite 14000)"
    unfolding profit_metric_def Let_def using lo hi by (simp add: df_rows)
  ultimately show "map profit_metric (filter (\<lambda>r. name r = ''16 Psyche'') df)
       = [Metric ''16 Psyche'' (Finite 10000) (Finite 6000) (Finite 14000)]"
    by simp
qed

section \<open>The empty state and the orbit\<close>

text \<open>
  Claim C5. Whatever the three thresholds, when no spectral type is accepted the filtered
  frame is empty, the page is rendered with the message "No asteroids match your filters."
  and it shows no chart: neither the scatter chart nor the orbit chart.
\<close>

theorem empty_types_empty_state:
  assumes "selected_types c = []"
  shows "df_filt rows c = []
    \<and> (\<exists>ws. page rows c = Inr ws \<and> Info ''No asteroids match your filters.'' \<in> set ws
          \<and> plots ws = [])"
proof -
  have e: "df_filt rows c = []"
    using assms by (rule df_filt_no_types)
  have "orbit_section [] (orbit_choice c) = Inr [Info ''No asteroids match your filters.'']"
    by (simp add: orbit_section_def)
  with e show ?thesis
    by (simp add: page_def Let_def)
qed

theorem empty_types_empty_state_witness:
  "selected_types ((default_controls df)\<lparr>selected_types := []\<rparr>) = []
   \<and> df_filt df ((default_controls df)\<lparr>selected_types := []\<rparr>) = []
   \<and> (\<exists>ws. page df ((default_controls df)\<lparr>selected_types := []\<rparr>) = Inr ws
         \<and> Info ''No asteroids match your filters.'' \<in> set ws \<and> plots ws = [])"
  using empty_types_empty_state [of "(default_controls df)\<lparr>selected_types := []\<rparr>" df]
  by simp



end
